theory Spec2Isabelle
  imports Main
begin

section \<open>The type-expression model of \<open>datamodel_code_generator/types.py\<close>\<close>

subsection \<open>External collaborators\<close>

text \<open>
  Modelled from the spec: \<open>PythonVersion\<close> of \<open>datamodel_code_generator.format\<close>, the
  dialect selector. The source names two members, \<open>PY_36\<close> (deferred, quoted names for
  referenced types) and \<open>PY_37\<close> (bare names, the default).
\<close>

datatype PythonVersion = PY_36 | PY_37

text \<open>
  Modelled from the spec: the helper-symbol identifiers of
  \<open>datamodel_code_generator.imports\<close>. The four well-known constants used by
  \<open>DataType.__init__\<close> are four distinct values; \<open>Import from import\<close> is any other
  helper symbol a caller may pass in \<open>imports_\<close>.
\<close>

datatype Import = IMPORT_LIST | IMPORT_DICT | IMPORT_OPTIONAL | IMPORT_UNION
  | Import string string

text \<open>
  Modelled from the spec: the handle of \<open>datamodel_code_generator.reference\<close>. The source
  reads its \<open>name\<close> and its \<open>module_name\<close> (here \<open>module_name'\<close>), and tests the
  handle for truth: an object with neither \<open>__bool__\<close> nor \<open>__len__\<close> is true, so an
  optional handle is true exactly when it is not \<open>None\<close>.
\<close>

record Reference =
  name :: string
  module_name' :: "string option"

subsection \<open>Python values and strings\<close>

text \<open>
  The values of \<open>kwargs\<close> are \<open>Any\<close>; the model has the literals a caller passes
  (text, integers, booleans, \<open>None\<close>) and the text \<open>f'{v}'\<close> gives for each.
\<close>

datatype py_value = PyStr string | PyInt int | PyBool bool | PyNone

fun digit_chars :: "nat \<Rightarrow> string" where
  "digit_chars n =
     (if n < 10 then [char_of (48 + n)]
      else digit_chars (n div 10) @ [char_of (48 + n mod 10)])"

declare digit_chars.simps [simp del]

fun py_format :: "py_value \<Rightarrow> string" where
  "py_format (PyStr s) = s"
| "py_format (PyInt i) = (if i < 0 then ''-'' @ digit_chars (nat (- i)) else digit_chars (nat i))"
| "py_format (PyBool b) = (if b then ''True'' else ''False'')"
| "py_format PyNone = ''None''"

text \<open>\<open>sep.join(xs)\<close>\<close>

fun join :: "string \<Rightarrow> string list \<Rightarrow> string" where
  "join sep [] = []"
| "join sep [x] = x"
| "join sep (x # y # ys) = x @ sep @ join sep (y # ys)"

text \<open>The single quote character of \<open>f"'{self.type}'"\<close>.\<close>

definition quote :: string where
  "quote = [CHR 0x27]"

subsection \<open>The class \<open>DataType\<close>\<close>

text \<open>
  The fields of the class, in the order of the source, but for \<open>data_types\<close>, the
  children, which the recursive datatype below holds beside them (\<open>fields_of\<close> and
  \<open>data_types\<close> select the two); \<open>imports_\<close> is written \<open>imports'\<close>. The two containers
  the initialiser mutates are type parameters: a node as a value holds their contents
  (a list of helpers, a set of names), a node in a store holds the addresses of its list
  and set objects. \<open>kwargs\<close> is a dict, kept as the list of its items in insertion
  order.
\<close>

record ('l, 's) DataTypeFields =
  type :: "string option"
  reference :: "Reference option"
  is_func :: bool
  kwargs :: "(string \<times> py_value) list option"
  imports' :: 'l
  python_version :: PythonVersion
  unresolved_types :: 's
  ref :: bool
  is_optional :: bool
  is_dict :: bool
  is_list :: bool

type_synonym DataTypeValues = "(Import list, string set) DataTypeFields"

datatype DataType = DataType (fields_of: DataTypeValues) (data_types: "DataType list")

text \<open>The defaults of the class, and of its subclass \<open>DataTypePy36\<close>.\<close>

definition DataType_defaults :: DataTypeValues where
  "DataType_defaults =
     \<lparr>type = None, reference = None, is_func = False, kwargs = None, imports' = [],
      python_version = PY_37, unresolved_types = {}, ref = False, is_optional = False,
      is_dict = False, is_list = False\<rparr>"

definition DataTypePy36_defaults :: DataTypeValues where
  "DataTypePy36_defaults = DataType_defaults\<lparr>python_version := PY_36\<rparr>"

text \<open>
  \<open>DataType.__init__\<close>. The argument \<open>values\<close> is the object as \<open>super().__init__\<close>
  leaves it (each field as passed, or its default), \<open>ds\<close> its \<open>data_types\<close>. The three
  steps of the source follow: the name of a referenced type is added to
  \<open>unresolved_types\<close>; the helper of each set flag is appended unless present; the
  helpers of every child are appended (\<open>extend\<close>) and its unresolved names united
  (\<open>update\<close>).
\<close>

definition add_unresolved :: "DataTypeValues \<Rightarrow> DataTypeValues" where
  "add_unresolved self =
     (case type self of
        None \<Rightarrow> self
      | Some t \<Rightarrow>
          if t \<noteq> [] \<and> (reference self \<noteq> None \<or> ref self)
          then self\<lparr>unresolved_types := insert t (unresolved_types self)\<rparr>
          else self)"

definition add_import :: "bool \<times> Import \<Rightarrow> DataTypeValues \<Rightarrow> DataTypeValues" where
  "add_import = (\<lambda>(field, import') self.
     if field \<and> import' \<notin> set (imports' self)
     then self\<lparr>imports' := imports' self @ [import']\<rparr>
     else self)"

definition add_data_type :: "DataType \<Rightarrow> DataTypeValues \<Rightarrow> DataTypeValues" where
  "add_data_type data_type self =
     self\<lparr>imports' := imports' self @ imports' (fields_of data_type),
          unresolved_types := unresolved_types self \<union> unresolved_types (fields_of data_type)\<rparr>"

text \<open>
  The flag loop touches \<open>imports_\<close> alone; \<open>flag_imports\<close> is that loop, unrolled, on
  the list (used to state what the initialiser computes; \<open>fold_add_import\<close> below ties
  it to \<open>add_import\<close>).
\<close>

definition flag_imports :: "bool \<Rightarrow> bool \<Rightarrow> bool \<Rightarrow> bool \<Rightarrow> Import list \<Rightarrow> Import list" where
  "flag_imports l d opt u xs =
    (let xs = (if l \<and> IMPORT_LIST \<notin> set xs then xs @ [IMPORT_LIST] else xs);
         xs = (if d \<and> IMPORT_DICT \<notin> set xs then xs @ [IMPORT_DICT] else xs);
         xs = (if opt \<and> IMPORT_OPTIONAL \<notin> set xs then xs @ [IMPORT_OPTIONAL] else xs);
         xs = (if u \<and> IMPORT_UNION \<notin> set xs then xs @ [IMPORT_UNION] else xs)
     in xs)"

definition DataType_init :: "DataTypeValues \<Rightarrow> DataType list \<Rightarrow> DataType" where
  "DataType_init values ds =
     (let self = add_unresolved values;
          self = fold add_import
                   [(is_list self, IMPORT_LIST),
                    (is_dict self, IMPORT_DICT),
                    (is_optional self, IMPORT_OPTIONAL),
                    (1 < length ds, IMPORT_UNION)] self;
          self = fold add_data_type ds self
      in DataType self ds)"

text \<open>The two factory class methods; \<open>cls\<close> is the defaults of the class they are called on.\<close>

definition from_model_name :: "DataTypeValues \<Rightarrow> string \<Rightarrow> bool \<Rightarrow> DataType" where
  "from_model_name cls model_name is_list' =
     DataType_init (cls\<lparr>type := Some model_name, ref := True, is_list := is_list'\<rparr>) []"

definition from_reference :: "DataTypeValues \<Rightarrow> Reference \<Rightarrow> bool \<Rightarrow> DataType" where
  "from_reference cls reference' is_list' =
     DataType_init
       (cls\<lparr>type := Some (name reference'), reference := Some reference', is_list := is_list'\<rparr>) []"

text \<open>
  The properties \<open>module_name\<close> and \<open>all_data_types\<close>, the latter the nodes of the
  subtree, children first.
\<close>

definition DataType_module_name :: "DataType \<Rightarrow> string option" where
  "DataType_module_name self =
     (case reference (fields_of self) of
        Some reference' \<Rightarrow> module_name' reference'
      | None \<Rightarrow> None)"

fun all_data_types :: "DataType \<Rightarrow> DataType list" where
  "all_data_types (DataType self ds) = concat (map all_data_types ds) @ [DataType self ds]"

text \<open>
  \<open>DataTypeManager.__init__\<close>: the class whose instances the manager builds, as its
  defaults.
\<close>

definition DataTypeManager_data_type :: "PythonVersion \<Rightarrow> DataTypeValues" where
  "DataTypeManager_data_type python_version' =
     (if python_version' = PY_36 then DataTypePy36_defaults else DataType_defaults)"

subsection \<open>Rendering: the property \<open>type_hint\<close>\<close>

text \<open>
  The body of \<open>type_hint\<close>, given the fields of the node and the list \<open>types\<close> of its
  children's type hints. \<open>inner_type\<close> is the value of \<open>type_\<close> after the first
  \<open>if\<close>/\<open>else\<close>; the three wrappers and the call follow in the order of the source.
\<close>

definition union_type :: "string list \<Rightarrow> string" where
  "union_type types =
     (if 1 < length types then ''Union['' @ join '', '' types @ '']''
      else if length types = 1 then types ! 0
      else [])"

definition inner_type :: "('l, 's) DataTypeFields \<Rightarrow> string list \<Rightarrow> string" where
  "inner_type self types =
     (case type self of
        None \<Rightarrow> union_type types
      | Some t \<Rightarrow>
          if t \<noteq> [] then
            (if (reference self \<noteq> None \<or> ref self) \<and> python_version self = PY_36
             then quote @ t @ quote
             else t)
          else union_type types)"

definition wrap_list :: "('l, 's) DataTypeFields \<Rightarrow> string \<Rightarrow> string" where
  "wrap_list self type' =
     (if is_list self then (if type' \<noteq> [] then ''List['' @ type' @ '']'' else ''List'')
      else type')"

definition wrap_dict :: "('l, 's) DataTypeFields \<Rightarrow> string \<Rightarrow> string" where
  "wrap_dict self type' =
     (if is_dict self then (if type' \<noteq> [] then ''Dict[str, '' @ type' @ '']'' else ''Dict'')
      else type')"

definition wrap_optional :: "('l, 's) DataTypeFields \<Rightarrow> string \<Rightarrow> string" where
  "wrap_optional self type' =
     (if is_optional self then ''Optional['' @ type' @ '']'' else type')"

definition kwargs_text :: "(string \<times> py_value) list \<Rightarrow> string" where
  "kwargs_text items = join '', '' (map (\<lambda>(k, v). k @ ''='' @ py_format v) items)"

definition wrap_func :: "('l, 's) DataTypeFields \<Rightarrow> string \<Rightarrow> string" where
  "wrap_func self type' =
     (if is_func self then
        (case kwargs self of
           None \<Rightarrow> type' @ ''()''
         | Some items \<Rightarrow>
             if items \<noteq> [] then type' @ ''('' @ kwargs_text items @ '')''
             else type' @ ''()'')
      else type')"

definition type_hint_of :: "('l, 's) DataTypeFields \<Rightarrow> string list \<Rightarrow> string" where
  "type_hint_of self types =
     wrap_func self (wrap_optional self (wrap_dict self (wrap_list self (inner_type self types))))"

fun type_hint :: "DataType \<Rightarrow> string" where
  "type_hint (DataType self ds) = type_hint_of self (map type_hint ds)"

subsection \<open>Objects in a store\<close>

text \<open>
  In Python a node is an object, its \<open>imports_\<close> a list object and its
  \<open>unresolved_types\<close> a set object, and \<open>__init__\<close> mutates the last two in place
  (\<open>append\<close>, \<open>extend\<close>, \<open>add\<close>, \<open>update\<close>). The store holds the three kinds of objects,
  each kind in a list; the address of an object is its index, and a new object is
  appended. A node object holds the addresses of its list, of its set and of its
  children.
\<close>

type_synonym addr = nat

record DataTypeObject =
  obj_fields :: "(addr, addr) DataTypeFields"
  obj_data_types :: "addr list"

record store =
  nodes :: "DataTypeObject list"
  import_lists :: "Import list list"
  name_sets :: "string set list"

definition empty_store :: store where
  "empty_store = \<lparr>nodes = [], import_lists = [], name_sets = []\<rparr>"

text \<open>
  \<open>super().__init__\<close> is pydantic's \<open>BaseModel.__init__\<close>. It validates every
  keyword into a value of the new object: for \<open>imports_: List[Import]\<close> it builds a new
  list with the elements of the list passed, for \<open>unresolved_types: Set[str]\<close> a new set,
  and for a keyword left out a copy of the default. A keyword is \<open>Some\<close> address of the
  list (set) object passed, or \<open>None\<close> when left out; \<open>ds\<close> are the addresses of the
  children, node objects of the store. (Where pydantic keeps a shallow copy of a child in
  \<open>data_types\<close>, the copy shares the child's list and set, which \<open>__init__\<close> only
  reads; the model keeps the child's address.)
\<close>

definition BaseModel_init ::
  "(addr option, addr option) DataTypeFields \<Rightarrow> addr list \<Rightarrow> store \<Rightarrow> store \<times> addr" where
  "BaseModel_init values ds s =
     (let l = length (import_lists s); u = length (name_sets s); self = length (nodes s);
          s = s\<lparr>import_lists := import_lists s @
                [case imports' values of None \<Rightarrow> [] | Some p \<Rightarrow> import_lists s ! p]\<rparr>;
          s = s\<lparr>name_sets := name_sets s @
                [case unresolved_types values of None \<Rightarrow> {} | Some p \<Rightarrow> name_sets s ! p]\<rparr>;
          s = s\<lparr>nodes := nodes s @
                [\<lparr>obj_fields =
                    \<lparr>type = type values, reference = reference values, is_func = is_func values,
                     kwargs = kwargs values, imports' = l, python_version = python_version values,
                     unresolved_types = u, ref = ref values, is_optional = is_optional values,
                     is_dict = is_dict values, is_list = is_list values\<rparr>,
                   obj_data_types = ds\<rparr>]\<rparr>
      in (s, self))"

text \<open>The four mutating methods, on the object at address \<open>p\<close>.\<close>

definition set_add :: "addr \<Rightarrow> string \<Rightarrow> store \<Rightarrow> store" where
  "set_add p x s = s\<lparr>name_sets := (name_sets s)[p := insert x (name_sets s ! p)]\<rparr>"

definition set_update :: "addr \<Rightarrow> string set \<Rightarrow> store \<Rightarrow> store" where
  "set_update p xs s = s\<lparr>name_sets := (name_sets s)[p := name_sets s ! p \<union> xs]\<rparr>"

definition list_append :: "addr \<Rightarrow> Import \<Rightarrow> store \<Rightarrow> store" where
  "list_append p x s = s\<lparr>import_lists := (import_lists s)[p := import_lists s ! p @ [x]]\<rparr>"

definition list_extend :: "addr \<Rightarrow> Import list \<Rightarrow> store \<Rightarrow> store" where
  "list_extend p xs s = s\<lparr>import_lists := (import_lists s)[p := import_lists s ! p @ xs]\<rparr>"

text \<open>
  \<open>DataType.__init__\<close> on the store: the same three steps as \<open>DataType_init\<close>, each
  reading the objects where they stand and writing through the addresses held by
  \<open>self\<close>.
\<close>

definition add_unresolved_h :: "addr \<Rightarrow> store \<Rightarrow> store" where
  "add_unresolved_h self s =
     (let me = obj_fields (nodes s ! self) in
      case type me of
        None \<Rightarrow> s
      | Some t \<Rightarrow>
          if t \<noteq> [] \<and> (reference me \<noteq> None \<or> ref me)
          then set_add (unresolved_types me) t s
          else s)"

definition add_import_h :: "addr \<Rightarrow> bool \<times> Import \<Rightarrow> store \<Rightarrow> store" where
  "add_import_h self = (\<lambda>(field, import') s.
     let p = imports' (obj_fields (nodes s ! self)) in
     if field \<and> import' \<notin> set (import_lists s ! p) then list_append p import' s else s)"

definition add_data_type_h :: "addr \<Rightarrow> addr \<Rightarrow> store \<Rightarrow> store" where
  "add_data_type_h self data_type s =
     (let me = obj_fields (nodes s ! self);
          s = list_extend (imports' me)
                (import_lists s ! imports' (obj_fields (nodes s ! data_type))) s;
          s = set_update (unresolved_types me)
                (name_sets s ! unresolved_types (obj_fields (nodes s ! data_type))) s
      in s)"

definition DataType_init_h ::
  "(addr option, addr option) DataTypeFields \<Rightarrow> addr list \<Rightarrow> store \<Rightarrow> store \<times> addr" where
  "DataType_init_h values ds s =
     (let (s, self) = BaseModel_init values ds s;
          s = add_unresolved_h self s;
          me = nodes s ! self;
          s = fold (add_import_h self)
                [(is_list (obj_fields me), IMPORT_LIST),
                 (is_dict (obj_fields me), IMPORT_DICT),
                 (is_optional (obj_fields me), IMPORT_OPTIONAL),
                 (1 < length (obj_data_types me), IMPORT_UNION)] s;
          s = fold (add_data_type_h self) (obj_data_types me) s
      in (s, self))"

text \<open>
  Reading the store: the keywords of a call and the fields of an object with the contents
  of their containers, and the node at an address as a value, children included. The
  children are read through their addresses, so \<open>node_of\<close> takes fuel; \<open>node_of_total\<close>
  below shows that fuel above the address is enough in a well-formed store.
\<close>

definition read_values :: "store \<Rightarrow> (addr option, addr option) DataTypeFields \<Rightarrow> DataTypeValues" where
  "read_values s f =
     \<lparr>type = type f, reference = reference f, is_func = is_func f, kwargs = kwargs f,
      imports' = (case imports' f of None \<Rightarrow> [] | Some p \<Rightarrow> import_lists s ! p),
      python_version = python_version f,
      unresolved_types = (case unresolved_types f of None \<Rightarrow> {} | Some p \<Rightarrow> name_sets s ! p),
      ref = ref f, is_optional = is_optional f,
      is_dict = is_dict f, is_list = is_list f\<rparr>"

definition read_fields :: "store \<Rightarrow> (addr, addr) DataTypeFields \<Rightarrow> DataTypeValues" where
  "read_fields s f =
     \<lparr>type = type f, reference = reference f, is_func = is_func f, kwargs = kwargs f,
      imports' = import_lists s ! imports' f, python_version = python_version f,
      unresolved_types = name_sets s ! unresolved_types f, ref = ref f,
      is_optional = is_optional f, is_dict = is_dict f, is_list = is_list f\<rparr>"

fun node_of :: "nat \<Rightarrow> store \<Rightarrow> addr \<Rightarrow> DataType option" where
  "node_of 0 s a = None"
| "node_of (Suc k) s a =
     (if a < length (nodes s)
      then map_option (DataType (read_fields s (obj_fields (nodes s ! a))))
             (those (map (node_of k s) (obj_data_types (nodes s ! a))))
      else None)"

definition type_hint_h :: "nat \<Rightarrow> store \<Rightarrow> addr \<Rightarrow> string option" where
  "type_hint_h k s a = map_option type_hint (node_of k s a)"

text \<open>
  A well-formed store: every address a node object holds is the address of an object,
  and the children of a node were there before it. The empty store is well-formed and
  \<open>DataType_init_h\<close> keeps a store so (\<open>wf_store_empty\<close>,
  \<open>wf_store_DataType_init_h\<close>).
\<close>

definition wf_store :: "store \<Rightarrow> bool" where
  "wf_store s =
     (\<forall>i < length (nodes s).
        imports' (obj_fields (nodes s ! i)) < length (import_lists s)
      \<and> unresolved_types (obj_fields (nodes s ! i)) < length (name_sets s)
      \<and> (\<forall>c \<in> set (obj_data_types (nodes s ! i)). c < i))"

subsection \<open>Example nodes\<close>

text \<open>
  \<open>DataType(type='int')\<close>, \<open>DataType.from_model_name('Pet', is_list=True)\<close>, a
  reference to \<open>Pet\<close> under either dialect, and the other nodes the theorems below are
  run on.
\<close>

definition node_int :: DataType where
  "node_int = DataType_init (DataType_defaults\<lparr>type := Some ''int''\<rparr>) []"

definition node_pet_list :: DataType where
  "node_pet_list = from_model_name DataType_defaults ''Pet'' True"

definition pet_reference :: Reference where
  "pet_reference = \<lparr>name = ''Pet'', module_name' = Some ''models''\<rparr>"

definition node_pet_py36 :: DataType where
  "node_pet_py36 = from_reference DataTypePy36_defaults pet_reference False"

definition node_pet_py37 :: DataType where
  "node_pet_py37 = from_reference DataType_defaults pet_reference False"

definition node_int_py36 :: DataType where
  "node_int_py36 = DataType_init (DataTypePy36_defaults\<lparr>type := Some ''int''\<rparr>) []"

definition node_optional_list_int :: DataType where
  "node_optional_list_int =
     DataType_init (DataType_defaults\<lparr>type := Some ''int'', is_list := True, is_optional := True\<rparr>) []"

definition node_union3 :: DataType where
  "node_union3 = DataType_init DataType_defaults [node_int, node_pet_list, node_pet_py36]"

definition node_field :: DataType where
  "node_field =
     DataType_init (DataType_defaults\<lparr>type := Some ''Field'', is_func := True,
       kwargs := Some [(''default'', PyStr ''1'')]\<rparr>) []"

definition node_field_empty :: DataType where
  "node_field_empty =
     DataType_init (DataType_defaults\<lparr>type := Some ''Field'', is_func := True, kwargs := Some []\<rparr>) []"

text \<open>
  A store with the two nodes \<open>DataType(type='int')\<close> and
  \<open>DataType.from_model_name('Pet', is_list=True)\<close> at the addresses 0 and 1, and the
  call \<open>DataType(is_list=True, imports_=pet.imports_, data_types=[int, pet])\<close>, which passes
  the list object of the second node.
\<close>

definition DataType_defaults_h :: "(addr option, addr option) DataTypeFields" where
  "DataType_defaults_h =
     \<lparr>type = None, reference = None, is_func = False, kwargs = None, imports' = None,
      python_version = PY_37, unresolved_types = None, ref = False, is_optional = False,
      is_dict = False, is_list = False\<rparr>"

definition store_children :: store where
  "store_children =
     (let (s, a) = DataType_init_h (DataType_defaults_h\<lparr>type := Some ''int''\<rparr>) [] empty_store;
          (s, b) = DataType_init_h
                     (DataType_defaults_h\<lparr>type := Some ''Pet'', ref := True, is_list := True\<rparr>) [] s
      in s)"

definition parent_values :: "(addr option, addr option) DataTypeFields" where
  "parent_values = DataType_defaults_h\<lparr>is_list := True, imports' := Some 1\<rparr>"

definition store_parent :: store where
  "store_parent = fst (DataType_init_h parent_values [0, 1] store_children)"

lemmas init_defs =
  DataType_init_def DataType_defaults_def DataTypePy36_defaults_def add_unresolved_def
  add_import_def add_data_type_def from_model_name_def from_reference_def

lemmas hint_defs =
  type_hint_of_def wrap_func_def wrap_optional_def wrap_dict_def wrap_list_def inner_type_def
  union_type_def kwargs_text_def quote_def

section \<open>What the initialiser computes\<close>

lemma fold_add_data_type:
  "fold add_data_type ds self =
     self\<lparr>imports' := imports' self @ concat (map (\<lambda>d. imports' (fields_of d)) ds),
          unresolved_types := unresolved_types self \<union> (\<Union>d\<in>set ds. unresolved_types (fields_of d))\<rparr>"
  by (induction ds arbitrary: self) (simp_all add: add_data_type_def Un_assoc)

lemma add_import_eq:
  "add_import (b, i) self =
     self\<lparr>imports' := (if b \<and> i \<notin> set (imports' self) then imports' self @ [i] else imports' self)\<rparr>"
  by (simp add: add_import_def)

lemma add_unresolved_eq:
  "add_unresolved self =
     self\<lparr>unresolved_types :=
       (case type self of None \<Rightarrow> unresolved_types self
        | Some t \<Rightarrow> if t \<noteq> [] \<and> (reference self \<noteq> None \<or> ref self)
                    then insert t (unresolved_types self) else unresolved_types self)\<rparr>"
  by (simp add: add_unresolved_def split: option.splits)

lemma fold_add_import:
  "fold add_import [(l, IMPORT_LIST), (d, IMPORT_DICT), (opt, IMPORT_OPTIONAL), (u, IMPORT_UNION)] self
     = self\<lparr>imports' := flag_imports l d opt u (imports' self)\<rparr>"
  by (simp add: add_import_eq flag_imports_def Let_def)

text \<open>
  The object after \<open>__init__\<close>: the fields as passed, but for the two containers.
\<close>

lemma DataType_init_fields:
  "fields_of (DataType_init v ds) =
     v\<lparr>imports' := flag_imports (is_list v) (is_dict v) (is_optional v) (1 < length ds) (imports' v)
                      @ concat (map (\<lambda>d. imports' (fields_of d)) ds),
       unresolved_types :=
         (case type v of None \<Rightarrow> unresolved_types v
          | Some t \<Rightarrow> if t \<noteq> [] \<and> (reference v \<noteq> None \<or> ref v)
                      then insert t (unresolved_types v) else unresolved_types v)
         \<union> (\<Union>d\<in>set ds. unresolved_types (fields_of d))\<rparr>"
  unfolding DataType_init_def Let_def fold_add_import fold_add_data_type add_unresolved_eq
  by simp

lemma DataType_init_children: "data_types (DataType_init v ds) = ds"
  by (simp add: DataType_init_def Let_def)

lemma set_flag_imports:
  "set (flag_imports l d opt u xs) =
     set xs \<union> (if l then {IMPORT_LIST} else {}) \<union> (if d then {IMPORT_DICT} else {})
       \<union> (if opt then {IMPORT_OPTIONAL} else {}) \<union> (if u then {IMPORT_UNION} else {})"
  by (auto simp: flag_imports_def Let_def)

lemma distinct_flag_imports: "distinct xs \<Longrightarrow> distinct (flag_imports l d opt u xs)"
  by (auto simp: flag_imports_def Let_def)

text \<open>Rendering reads neither container.\<close>

lemma inner_type_frame:
  "inner_type (self\<lparr>imports' := I, unresolved_types := U\<rparr>) ts = inner_type self ts"
  by (cases "type self") (simp_all add: inner_type_def)

lemma wrap_frame:
  "wrap_list (self\<lparr>imports' := I, unresolved_types := U\<rparr>) = wrap_list self"
  "wrap_dict (self\<lparr>imports' := I, unresolved_types := U\<rparr>) = wrap_dict self"
  "wrap_optional (self\<lparr>imports' := I, unresolved_types := U\<rparr>) = wrap_optional self"
  "wrap_func (self\<lparr>imports' := I, unresolved_types := U\<rparr>) = wrap_func self"
  by (cases "kwargs self";
      simp add: wrap_list_def wrap_dict_def wrap_optional_def wrap_func_def fun_eq_iff)+

lemma type_hint_of_frame:
  "type_hint_of (self\<lparr>imports' := I, unresolved_types := U\<rparr>) ts = type_hint_of self ts"
  by (simp add: type_hint_of_def inner_type_frame wrap_frame)

lemma type_hint_DataType_init:
  "type_hint (DataType_init v ds) = type_hint_of v (map type_hint ds)"
proof -
  have "DataType_init v ds = DataType (fields_of (DataType_init v ds)) ds"
    by (simp add: DataType_init_def Let_def)
  then have "type_hint (DataType_init v ds)
      = type_hint_of (fields_of (DataType_init v ds)) (map type_hint ds)"
    by (metis type_hint.simps)
  then show ?thesis
    by (simp add: DataType_init_fields type_hint_of_frame)
qed

text \<open>The type hint of a node, from its fields and its children's type hints.\<close>

lemma type_hint_eq: "type_hint n = type_hint_of (fields_of n) (map type_hint (data_types n))"
  by (cases n) simp

lemma wrap_func_plain: "\<not> is_func self \<Longrightarrow> wrap_func self x = x"
  by (simp add: wrap_func_def)

lemma wrap_func_call:
  "is_func self \<Longrightarrow>
     wrap_func self x =
       x @ ''('' @ kwargs_text (case kwargs self of None \<Rightarrow> [] | Some items \<Rightarrow> items) @ '')''"
  by (simp add: wrap_func_def kwargs_text_def split: option.splits)

lemma inner_type_named:
  "type self = Some t \<Longrightarrow> t \<noteq> [] \<Longrightarrow>
     inner_type self ts =
       (if (reference self \<noteq> None \<or> ref self) \<and> python_version self = PY_36
        then quote @ t @ quote else t)"
  by (simp add: inner_type_def)

lemma inner_type_nameless:
  "type self = None \<or> type self = Some [] \<Longrightarrow> inner_type self ts = union_type ts"
  by (auto simp: inner_type_def)

section \<open>The initialiser on the store\<close>

lemmas store_defs =
  DataType_init_h_def BaseModel_init_def add_unresolved_h_def add_import_h_def add_data_type_h_def
  list_append_def list_extend_def set_add_def set_update_def empty_store_def DataType_defaults_h_def

lemma BaseModel_init_eq:
  "BaseModel_init values ds s =
     (\<lparr>nodes = nodes s @
         [\<lparr>obj_fields =
             \<lparr>type = type values, reference = reference values, is_func = is_func values,
              kwargs = kwargs values, imports' = length (import_lists s),
              python_version = python_version values,
              unresolved_types = length (name_sets s), ref = ref values,
              is_optional = is_optional values, is_dict = is_dict values,
              is_list = is_list values\<rparr>,
            obj_data_types = ds\<rparr>],
       import_lists = import_lists s @
         [case imports' values of None \<Rightarrow> [] | Some p \<Rightarrow> import_lists s ! p],
       name_sets = name_sets s @
         [case unresolved_types values of None \<Rightarrow> {} | Some p \<Rightarrow> name_sets s ! p]\<rparr>,
      length (nodes s))"
  by (cases "imports' values"; cases "unresolved_types values")
     (simp_all add: BaseModel_init_def Let_def)

text \<open>Each step writes the list and the set of the new object, the last of their kind.\<close>

lemma add_unresolved_h_eq:
  assumes "unresolved_types (obj_fields obj) = length ss"
  shows "add_unresolved_h (length ns) \<lparr>nodes = ns @ [obj], import_lists = ls, name_sets = ss @ [us]\<rparr> =
     \<lparr>nodes = ns @ [obj], import_lists = ls,
      name_sets = ss @ [case type (obj_fields obj) of None \<Rightarrow> us
                   | Some t \<Rightarrow> if t \<noteq> [] \<and> (reference (obj_fields obj) \<noteq> None \<or> ref (obj_fields obj))
                               then insert t us else us]\<rparr>"
  using assms by (simp add: add_unresolved_h_def set_add_def Let_def split: option.splits)

lemma add_import_h_eq:
  assumes "imports' (obj_fields obj) = length ls"
  shows "add_import_h (length ns) (b, i) \<lparr>nodes = ns @ [obj], import_lists = ls @ [il], name_sets = ss\<rparr> =
     \<lparr>nodes = ns @ [obj],
      import_lists = ls @ [if b \<and> i \<notin> set il then il @ [i] else il], name_sets = ss\<rparr>"
  using assms by (simp add: add_import_h_def list_append_def Let_def)

lemma fold_add_import_h:
  assumes "imports' (obj_fields obj) = length ls"
  shows "fold (add_import_h (length ns))
           [(l, IMPORT_LIST), (d, IMPORT_DICT), (opt, IMPORT_OPTIONAL), (u, IMPORT_UNION)]
           \<lparr>nodes = ns @ [obj], import_lists = ls @ [il], name_sets = ss\<rparr> =
     \<lparr>nodes = ns @ [obj], import_lists = ls @ [flag_imports l d opt u il], name_sets = ss\<rparr>"
  by (simp add: add_import_h_eq [OF assms] flag_imports_def Let_def)

lemma add_data_type_h_eq:
  assumes "imports' (obj_fields obj) = length ls" and "unresolved_types (obj_fields obj) = length ss"
    and "c < length ns" and "imports' (obj_fields (ns ! c)) < length ls"
    and "unresolved_types (obj_fields (ns ! c)) < length ss"
  shows "add_data_type_h (length ns) c \<lparr>nodes = ns @ [obj], import_lists = ls @ [il], name_sets = ss @ [us]\<rparr> =
     \<lparr>nodes = ns @ [obj],
      import_lists = ls @ [il @ ls ! imports' (obj_fields (ns ! c))],
      name_sets = ss @ [us \<union> ss ! unresolved_types (obj_fields (ns ! c))]\<rparr>"
  using assms
  by (simp add: add_data_type_h_def list_extend_def set_update_def Let_def nth_append)

lemma fold_add_data_type_h:
  assumes "imports' (obj_fields obj) = length ls" and "unresolved_types (obj_fields obj) = length ss"
    and "\<forall>c \<in> set ds. c < length ns \<and> imports' (obj_fields (ns ! c)) < length ls
            \<and> unresolved_types (obj_fields (ns ! c)) < length ss"
  shows "fold (add_data_type_h (length ns)) ds
           \<lparr>nodes = ns @ [obj], import_lists = ls @ [il], name_sets = ss @ [us]\<rparr> =
     \<lparr>nodes = ns @ [obj],
      import_lists = ls @ [il @ concat (map (\<lambda>c. ls ! imports' (obj_fields (ns ! c))) ds)],
      name_sets = ss @ [us \<union> (\<Union>c\<in>set ds. ss ! unresolved_types (obj_fields (ns ! c)))]\<rparr>"
  using assms(3)
proof (induction ds arbitrary: il us)
  case Nil
  then show ?case by simp
next
  case (Cons c ds)
  then show ?case
    by (simp add: add_data_type_h_eq [OF assms(1,2)] Un_assoc)
qed

text \<open>
  The store after \<open>__init__\<close>, when the children are objects of a well-formed store: one
  node object, one list and one set more, and nothing else written.
\<close>

lemma DataType_init_h_eq:
  assumes "wf_store s" and "\<forall>c \<in> set ds. c < length (nodes s)"
  shows "DataType_init_h values ds s =
     (\<lparr>nodes = nodes s @
         [\<lparr>obj_fields =
             \<lparr>type = type values, reference = reference values, is_func = is_func values,
              kwargs = kwargs values, imports' = length (import_lists s),
              python_version = python_version values,
              unresolved_types = length (name_sets s), ref = ref values,
              is_optional = is_optional values, is_dict = is_dict values,
              is_list = is_list values\<rparr>,
            obj_data_types = ds\<rparr>],
       import_lists = import_lists s @
         [flag_imports (is_list values) (is_dict values) (is_optional values) (1 < length ds)
            (imports' (read_values s values))
          @ concat (map (\<lambda>c. import_lists s ! imports' (obj_fields (nodes s ! c))) ds)],
       name_sets = name_sets s @
         [(case type values of None \<Rightarrow> unresolved_types (read_values s values)
           | Some t \<Rightarrow> if t \<noteq> [] \<and> (reference values \<noteq> None \<or> ref values)
                       then insert t (unresolved_types (read_values s values))
                       else unresolved_types (read_values s values))
          \<union> (\<Union>c\<in>set ds. name_sets s ! unresolved_types (obj_fields (nodes s ! c)))]\<rparr>,
      length (nodes s))"
proof -
  let ?obj = "\<lparr>obj_fields =
             \<lparr>type = type values, reference = reference values, is_func = is_func values,
              kwargs = kwargs values, imports' = length (import_lists s),
              python_version = python_version values,
              unresolved_types = length (name_sets s), ref = ref values,
              is_optional = is_optional values, is_dict = is_dict values,
              is_list = is_list values\<rparr>,
            obj_data_types = ds\<rparr>"
  have p: "imports' (obj_fields ?obj) = length (import_lists s)"
    and q: "unresolved_types (obj_fields ?obj) = length (name_sets s)"
    by simp_all
  have c: "\<forall>c \<in> set ds. c < length (nodes s)
            \<and> imports' (obj_fields (nodes s ! c)) < length (import_lists s)
            \<and> unresolved_types (obj_fields (nodes s ! c)) < length (name_sets s)"
    using assms by (simp add: wf_store_def)
  let ?il0 = "imports' (read_values s values)"
  let ?us0 = "unresolved_types (read_values s values)"
  let ?us1 = "case type values of None \<Rightarrow> ?us0
           | Some t \<Rightarrow> if t \<noteq> [] \<and> (reference values \<noteq> None \<or> ref values)
                       then insert t ?us0 else ?us0"
  let ?il1 = "flag_imports (is_list values) (is_dict values) (is_optional values) (1 < length ds) ?il0"
  let ?s1 = "\<lparr>nodes = nodes s @ [?obj], import_lists = import_lists s @ [?il0],
             name_sets = name_sets s @ [?us0]\<rparr>"
  let ?s2 = "\<lparr>nodes = nodes s @ [?obj], import_lists = import_lists s @ [?il0],
             name_sets = name_sets s @ [?us1]\<rparr>"
  let ?s3 = "\<lparr>nodes = nodes s @ [?obj], import_lists = import_lists s @ [?il1],
             name_sets = name_sets s @ [?us1]\<rparr>"
  have b: "BaseModel_init values ds s = (?s1, length (nodes s))"
    by (simp add: BaseModel_init_eq read_values_def)
  have u: "add_unresolved_h (length (nodes s)) ?s1 = ?s2"
    by (cases "type values") (simp_all add: add_unresolved_h_eq)
  have me: "nodes ?s2 ! length (nodes s) = ?obj"
    by simp
  have f: "fold (add_import_h (length (nodes s)))
             [(is_list (obj_fields ?obj), IMPORT_LIST), (is_dict (obj_fields ?obj), IMPORT_DICT),
              (is_optional (obj_fields ?obj), IMPORT_OPTIONAL),
              (1 < length (obj_data_types ?obj), IMPORT_UNION)] ?s2 = ?s3"
    using fold_add_import_h [OF p, of "nodes s" "is_list values" "is_dict values"
        "is_optional values" "1 < length ds" ?il0 "name_sets s @ [?us1]"]
    by simp
  have d: "fold (add_data_type_h (length (nodes s))) (obj_data_types ?obj) ?s3 =
     \<lparr>nodes = nodes s @ [?obj],
      import_lists = import_lists s @
        [?il1 @ concat (map (\<lambda>c. import_lists s ! imports' (obj_fields (nodes s ! c))) ds)],
      name_sets = name_sets s @
        [?us1 \<union> (\<Union>c\<in>set ds. name_sets s ! unresolved_types (obj_fields (nodes s ! c)))]\<rparr>"
    using fold_add_data_type_h [OF p q c, of ?il1 ?us1] by simp
  show ?thesis
    unfolding DataType_init_h_def b prod.case Let_def u me f d ..
qed

lemma DataType_init_h_extends:
  assumes "wf_store s" and "\<forall>c \<in> set ds. c < length (nodes s)"
    and "DataType_init_h values ds s = (s', self)"
  shows "self = length (nodes s)
       \<and> (\<exists>obj il us. nodes s' = nodes s @ [obj] \<and> import_lists s' = import_lists s @ [il]
             \<and> name_sets s' = name_sets s @ [us])"
  using assms(3) unfolding DataType_init_h_eq [OF assms(1,2)] by auto

lemma wf_store_empty: "wf_store empty_store"
  by (simp add: wf_store_def empty_store_def)

lemma wf_store_DataType_init_h:
  assumes "wf_store s" and "\<forall>c \<in> set ds. c < length (nodes s)"
    and "DataType_init_h values ds s = (s', self)"
  shows "wf_store s'"
  using assms unfolding DataType_init_h_eq [OF assms(1,2)]
  by (auto simp: wf_store_def less_Suc_eq nth_append)

text \<open>Reading an object that was there is not changed by objects appended.\<close>

lemma read_fields_frame:
  assumes "import_lists t = import_lists s @ ls" and "name_sets t = name_sets s @ ss"
    and "imports' f < length (import_lists s)" and "unresolved_types f < length (name_sets s)"
  shows "read_fields t f = read_fields s f"
  using assms by (simp add: read_fields_def nth_append)

lemma node_of_frame:
  assumes "wf_store s" and "nodes t = nodes s @ ns"
    and "import_lists t = import_lists s @ ls" and "name_sets t = name_sets s @ ss"
  shows "c < length (nodes s) \<Longrightarrow> node_of k t c = node_of k s c"
proof (induction k arbitrary: c)
  case 0
  show ?case by simp
next
  case (Suc k)
  let ?obj = "nodes s ! c"
  have obj: "nodes t ! c = ?obj"
    using Suc.prems assms(2) by (simp add: nth_append)
  have ptr: "imports' (obj_fields ?obj) < length (import_lists s)"
    "unresolved_types (obj_fields ?obj) < length (name_sets s)"
    and kids: "\<forall>c' \<in> set (obj_data_types ?obj). c' < length (nodes s)"
    using assms(1) Suc.prems unfolding wf_store_def by fastforce+
  have f: "read_fields t (obj_fields ?obj) = read_fields s (obj_fields ?obj)"
    by (rule read_fields_frame [OF assms(3,4) ptr])
  have m: "map (node_of k t) (obj_data_types ?obj) = map (node_of k s) (obj_data_types ?obj)"
    using kids Suc.IH by simp
  have lt: "c < length (nodes t)"
    using Suc.prems assms(2) by simp
  show ?case
    using Suc.prems lt by (simp add: obj f m)
qed

lemma those_map_total:
  "\<forall>x \<in> set xs. f x \<noteq> None \<Longrightarrow> those (map f xs) \<noteq> None"
  by (induction xs) auto

lemma those_map_Some:
  "those (map f xs) = Some ys \<Longrightarrow> list_all2 (\<lambda>x y. f x = Some y) xs ys"
  by (induction xs arbitrary: ys) (auto split: option.splits)

text \<open>With fuel above its address, a node of a well-formed store is read.\<close>

lemma node_of_total:
  assumes "wf_store s"
  shows "c < length (nodes s) \<Longrightarrow> c < k \<Longrightarrow> node_of k s c \<noteq> None"
proof (induction k arbitrary: c)
  case 0
  then show ?case by simp
next
  case (Suc k)
  have kids: "\<forall>c' \<in> set (obj_data_types (nodes s ! c)). c' < c"
    using assms Suc.prems(1) unfolding wf_store_def by blast
  have "\<forall>c' \<in> set (obj_data_types (nodes s ! c)). node_of k s c' \<noteq> None"
    using kids Suc.prems Suc.IH by fastforce
  then have "those (map (node_of k s) (obj_data_types (nodes s ! c))) \<noteq> None"
    by (rule those_map_total)
  then show ?case
    using Suc.prems(1) by auto
qed

lemma node_of_fields:
  "node_of k s c = Some d \<Longrightarrow> fields_of d = read_fields s (obj_fields (nodes s ! c))"
  by (cases k) (auto split: if_splits)

lemma list_all2_fields:
  assumes "list_all2 (\<lambda>c d. node_of k s c = Some d) ds dsv"
  shows "map (\<lambda>d. imports' (fields_of d)) dsv
           = map (\<lambda>c. import_lists s ! imports' (obj_fields (nodes s ! c))) ds
       \<and> (\<Union>d\<in>set dsv. unresolved_types (fields_of d))
           = (\<Union>c\<in>set ds. name_sets s ! unresolved_types (obj_fields (nodes s ! c)))"
  using assms
  by (induction ds dsv rule: list_all2_induct) (auto simp: node_of_fields read_fields_def)

text \<open>
  The two models of \<open>__init__\<close> agree: the new object, read from the store, is the value
  \<open>DataType_init\<close> computes from the keywords and the children read from the store.
\<close>

lemma DataType_init_h_refines:
  assumes "wf_store s" and "\<forall>c \<in> set ds. c < length (nodes s)"
    and "those (map (node_of k s) ds) = Some dsv"
    and "DataType_init_h values ds s = (s', self)"
  shows "node_of (Suc k) s' self = Some (DataType_init (read_values s values) dsv)"
proof -
  let ?v = "read_values s values"
  let ?IL = "flag_imports (is_list values) (is_dict values) (is_optional values) (1 < length ds)
            (imports' ?v)
          @ concat (map (\<lambda>c. import_lists s ! imports' (obj_fields (nodes s ! c))) ds)"
  let ?US = "(case type values of None \<Rightarrow> unresolved_types ?v
           | Some t \<Rightarrow> if t \<noteq> [] \<and> (reference values \<noteq> None \<or> ref values)
                       then insert t (unresolved_types ?v)
                       else unresolved_types ?v)
          \<union> (\<Union>c\<in>set ds. name_sets s ! unresolved_types (obj_fields (nodes s ! c)))"
  let ?f = "\<lparr>type = type values, reference = reference values, is_func = is_func values,
              kwargs = kwargs values, imports' = length (import_lists s),
              python_version = python_version values,
              unresolved_types = length (name_sets s), ref = ref values,
              is_optional = is_optional values, is_dict = is_dict values,
              is_list = is_list values\<rparr>"
  have s': "s' = \<lparr>nodes = nodes s @ [\<lparr>obj_fields = ?f, obj_data_types = ds\<rparr>],
                 import_lists = import_lists s @ [?IL], name_sets = name_sets s @ [?US]\<rparr>"
    and self: "self = length (nodes s)"
    using assms(4) unfolding DataType_init_h_eq [OF assms(1,2)] by simp_all
  have all2: "list_all2 (\<lambda>c d. node_of k s c = Some d) ds dsv"
    using assms(3) by (rule those_map_Some)
  then have len: "length dsv = length ds"
    by (simp add: list_all2_lengthD)
  note f = list_all2_fields [OF all2]
  have n: "nodes s' = nodes s @ [\<lparr>obj_fields = ?f, obj_data_types = ds\<rparr>]"
    and l: "import_lists s' = import_lists s @ [?IL]"
    and u: "name_sets s' = name_sets s @ [?US]"
    by (simp_all add: s')
  have m: "map (node_of k s') ds = map (node_of k s) ds"
    using assms(2) node_of_frame [OF assms(1) n l u] by simp
  have rf: "read_fields s' ?f = fields_of (DataType_init ?v dsv)"
    unfolding DataType_init_fields
    by (cases "type values") (simp_all add: l u read_fields_def f len read_values_def)
  have "node_of (Suc k) s' self = Some (DataType (read_fields s' ?f) dsv)"
    using assms(3) by (simp add: self n m)
  also have "DataType (read_fields s' ?f) dsv = DataType_init ?v dsv"
    unfolding rf by (simp add: DataType_init_def Let_def)
  finally show ?thesis .
qed

lemma store_children_eq:
  "store_children =
     \<lparr>nodes =
        [\<lparr>obj_fields = \<lparr>type = Some ''int'', reference = None, is_func = False, kwargs = None,
             imports' = 0, python_version = PY_37, unresolved_types = 0, ref = False,
             is_optional = False, is_dict = False, is_list = False\<rparr>, obj_data_types = []\<rparr>,
         \<lparr>obj_fields = \<lparr>type = Some ''Pet'', reference = None, is_func = False, kwargs = None,
             imports' = 1, python_version = PY_37, unresolved_types = 1, ref = True,
             is_optional = False, is_dict = False, is_list = True\<rparr>, obj_data_types = []\<rparr>],
      import_lists = [[], [IMPORT_LIST]],
      name_sets = [{}, {''Pet''}]\<rparr>"
  by (simp add: store_children_def store_defs Let_def)

lemma wf_store_children: "wf_store store_children"
  by (auto simp: store_children_eq wf_store_def less_Suc_eq numeral_2_eq_2)

section \<open>The claims\<close>

subsection \<open>The containers of a constructed node\<close>

text \<open>
  C1 (the code departs from it). The claim: the \<open>imports_\<close> of a node built with
  children holds every helper once. The flag loop appends a helper only when it is not
  there yet, but the child loop appends each child's whole list (\<open>extend\<close>), so a helper
  the node and a child both need appears twice: a list node over a list child holds
  \<open>IMPORT_LIST\<close> twice, and a union whose second child is itself a union holds
  \<open>IMPORT_UNION\<close> twice.
\<close>

theorem imports_duplicated_by_children:
  "imports' (fields_of (DataType_init (DataType_defaults\<lparr>is_list := True\<rparr>) [node_pet_list]))
     = [IMPORT_LIST, IMPORT_LIST]
   \<and> \<not> distinct (imports' (fields_of (DataType_init (DataType_defaults\<lparr>is_list := True\<rparr>) [node_pet_list])))
   \<and> imports' (fields_of (DataType_init DataType_defaults
        [node_int, DataType_init DataType_defaults [node_int, node_int]]))
     = [IMPORT_UNION, IMPORT_UNION]"
  by (simp add: init_defs node_int_def node_pet_list_def)

text \<open>
  C2 (as stated it fails). The claim: a node built with only a name has the name in
  \<open>unresolved_types\<close>. The initialiser adds the name only under the guard
  \<open>self.reference or self.ref\<close>: \<open>DataType(type='int')\<close> has an empty set.
\<close>

theorem name_only_not_recorded_counterexample:
  "''int'' \<notin> unresolved_types (fields_of (DataType_init (DataType_defaults\<lparr>type := Some ''int''\<rparr>) []))"
  by (simp add: init_defs)

text \<open>
  C2, amended. The \<open>unresolved_types\<close> of a constructed node is: its name, when the name
  is non-empty and the node has a reference or the \<open>ref\<close> flag; what was passed in; what
  the children hold. So a node built with only a name is the leaf with the fields as
  passed and an empty \<open>unresolved_types\<close>, and the two factories, which set \<open>ref\<close> and
  \<open>reference\<close>, record a non-empty name.
\<close>

theorem name_recorded_iff_referenced:
  "unresolved_types (fields_of (DataType_init v ds)) =
      (case type v of None \<Rightarrow> {}
       | Some t \<Rightarrow> if t \<noteq> [] \<and> (reference v \<noteq> None \<or> ref v) then {t} else {})
      \<union> unresolved_types v \<union> (\<Union>d\<in>set ds. unresolved_types (fields_of d))
   \<and> DataType_init (DataType_defaults\<lparr>type := Some t\<rparr>) []
       = DataType (DataType_defaults\<lparr>type := Some t\<rparr>) []
   \<and> unresolved_types (fields_of (DataType_init (DataType_defaults\<lparr>type := Some t\<rparr>) [])) = {}
   \<and> (t \<noteq> [] \<longrightarrow> t \<in> unresolved_types (fields_of (from_model_name cls t l)))
   \<and> (name r \<noteq> [] \<longrightarrow> name r \<in> unresolved_types (fields_of (from_reference cls r l)))"
proof -
  have 1: "unresolved_types (fields_of (DataType_init v ds)) =
      (case type v of None \<Rightarrow> {}
       | Some t \<Rightarrow> if t \<noteq> [] \<and> (reference v \<noteq> None \<or> ref v) then {t} else {})
      \<union> unresolved_types v \<union> (\<Union>d\<in>set ds. unresolved_types (fields_of d))"
    by (simp add: DataType_init_fields split: option.splits)
  have 2: "DataType_init (DataType_defaults\<lparr>type := Some t\<rparr>) []
      = DataType (DataType_defaults\<lparr>type := Some t\<rparr>) []"
    by (simp add: init_defs)
  have 3: "unresolved_types (fields_of (DataType_init (DataType_defaults\<lparr>type := Some t\<rparr>) [])) = {}"
    by (simp add: init_defs)
  have 4: "t \<noteq> [] \<longrightarrow> t \<in> unresolved_types (fields_of (from_model_name cls t l))"
    by (simp add: from_model_name_def DataType_init_fields)
  have 5: "name r \<noteq> [] \<longrightarrow> name r \<in> unresolved_types (fields_of (from_reference cls r l))"
    by (simp add: from_reference_def DataType_init_fields)
  from 1 2 3 4 5 show ?thesis by blast
qed

theorem name_recorded_iff_referenced_witness:
  "''Pet'' \<noteq> [] \<and> name pet_reference \<noteq> []
   \<and> unresolved_types (fields_of (DataType_init (DataType_defaults\<lparr>type := Some ''Pet''\<rparr>) [])) = {}
   \<and> ''Pet'' \<in> unresolved_types (fields_of (from_model_name DataType_defaults ''Pet'' False))
   \<and> name pet_reference
       \<in> unresolved_types (fields_of (from_reference DataType_defaults pet_reference False))
   \<and> unresolved_types (fields_of (DataType_init DataType_defaults [node_int, node_pet_list]))
       = {''Pet''}"
proof -
  have h1: "''Pet'' \<noteq> []" and h2: "name pet_reference \<noteq> []"
    by (simp_all add: pet_reference_def)
  note t = name_recorded_iff_referenced
    [of DataType_defaults "[node_int, node_pet_list]" "''Pet''" DataType_defaults False pet_reference]
  from t
  have a: "unresolved_types (fields_of (DataType_init (DataType_defaults\<lparr>type := Some ''Pet''\<rparr>) [])) = {}"
    by blast
  from t h1
  have b: "''Pet'' \<in> unresolved_types (fields_of (from_model_name DataType_defaults ''Pet'' False))"
    by blast
  from t h2
  have c: "name pet_reference
      \<in> unresolved_types (fields_of (from_reference DataType_defaults pet_reference False))"
    by blast
  from conjunct1 [OF t]
  have d: "unresolved_types (fields_of (DataType_init DataType_defaults [node_int, node_pet_list]))
      = {''Pet''}"
    by (simp add: node_int_def node_pet_list_def init_defs Let_def)
  from h1 h2 a b c d show ?thesis by blast
qed

subsection \<open>Rendering\<close>

text \<open>
  C3 (the code departs from it). The claim: with an empty inner form each of the three
  wrappers renders as the bare helper name. The list and the mapping wrapper test the
  inner form (\<open>if type_ else 'List'\<close>, \<open>if type_ else 'Dict'\<close>); the optional wrapper
  does not, and \<open>DataType(is_optional=True)\<close> renders \<open>Optional[]\<close>.
\<close>

theorem empty_optional_keeps_brackets:
  "type_hint (DataType_init (DataType_defaults\<lparr>is_optional := True\<rparr>) []) = ''Optional[]''
   \<and> type_hint (DataType_init (DataType_defaults\<lparr>is_list := True\<rparr>) []) = ''List''
   \<and> type_hint (DataType_init (DataType_defaults\<lparr>is_dict := True\<rparr>) []) = ''Dict''"
  by (simp add: type_hint_DataType_init hint_defs DataType_defaults_def)

text \<open>
  C4. A node has a name when \<open>type\<close> is a non-empty string (what \<open>if self.type\<close> tests).
  For every such node the type hint is the wrappers and the call around the name, which
  is in single quotes exactly when the node has a reference or the \<open>ref\<close> flag and its
  dialect is \<open>PY_36\<close>. So, with no wrapper flag and no call: a referenced name under
  \<open>PY_36\<close> renders quoted; under any other dialect the name renders bare; a plain scalar
  name (no reference, no flag) renders bare under either dialect.
\<close>

theorem type_hint_quotes_referenced_names:
  assumes "type (fields_of n) = Some t" and "t \<noteq> []"
  shows "type_hint n =
           wrap_func (fields_of n) (wrap_optional (fields_of n) (wrap_dict (fields_of n) (wrap_list (fields_of n)
             (if (reference (fields_of n) \<noteq> None \<or> ref (fields_of n)) \<and> python_version (fields_of n) = PY_36
              then quote @ t @ quote else t))))
       \<and> (\<not> is_list (fields_of n) \<and> \<not> is_dict (fields_of n) \<and> \<not> is_optional (fields_of n)
            \<and> \<not> is_func (fields_of n) \<longrightarrow>
            ((reference (fields_of n) \<noteq> None \<or> ref (fields_of n)) \<and> python_version (fields_of n) = PY_36 \<longrightarrow>
               type_hint n = quote @ t @ quote)
          \<and> (python_version (fields_of n) \<noteq> PY_36 \<longrightarrow> type_hint n = t)
          \<and> (reference (fields_of n) = None \<and> \<not> ref (fields_of n) \<longrightarrow> type_hint n = t))"
  unfolding type_hint_eq [of n] using assms
  by (simp add: type_hint_of_def inner_type_named wrap_func_def wrap_optional_def wrap_dict_def
      wrap_list_def)

theorem type_hint_quotes_referenced_names_witness:
  "type (fields_of node_pet_py36) = Some ''Pet'' \<and> ''Pet'' \<noteq> []
   \<and> type_hint node_pet_py36 = [CHR 0x27] @ ''Pet'' @ [CHR 0x27]
   \<and> type_hint node_pet_py37 = ''Pet''
   \<and> type_hint node_int_py36 = ''int''"
proof -
  have p: "''Pet'' \<noteq> []" and i: "''int'' \<noteq> []" by simp_all
  have h36: "type (fields_of node_pet_py36) = Some ''Pet''"
    and h37: "type (fields_of node_pet_py37) = Some ''Pet''"
    and hint: "type (fields_of node_int_py36) = Some ''int''"
    by (simp_all add: node_pet_py36_def node_pet_py37_def node_int_py36_def pet_reference_def
        init_defs Let_def)
  have a: "type_hint node_pet_py36 = [CHR 0x27] @ ''Pet'' @ [CHR 0x27]"
    using type_hint_quotes_referenced_names [OF h36 p]
    by (simp add: node_pet_py36_def pet_reference_def init_defs hint_defs Let_def)
  have b: "type_hint node_pet_py37 = ''Pet''"
    using type_hint_quotes_referenced_names [OF h37 p]
    by (simp add: node_pet_py37_def pet_reference_def init_defs hint_defs Let_def)
  have c: "type_hint node_int_py36 = ''int''"
    using type_hint_quotes_referenced_names [OF hint i]
    by (simp add: node_int_py36_def init_defs hint_defs Let_def)
  from h36 p a b c show ?thesis by blast
qed

text \<open>
  C5. A node with a name, \<open>is_list\<close> and \<open>is_optional\<close> renders the optional wrapper
  around the list wrapper around the name (\<open>x\<close>, the name as C4 gives it):
  \<open>Optional[List[x]]\<close>, with the mapping wrapper between the two when \<open>is_dict\<close> is set
  too, \<open>Optional[Dict[str, List[x]]]\<close>, and never \<open>List[Optional[x]]\<close>. With \<open>is_func\<close>
  set, that text is the callee of the call.
\<close>

theorem optional_wraps_list:
  assumes "type (fields_of n) = Some t" and "t \<noteq> []"
    and "is_list (fields_of n)" and "is_optional (fields_of n)"
    and "x = (if (reference (fields_of n) \<noteq> None \<or> ref (fields_of n)) \<and> python_version (fields_of n) = PY_36
              then quote @ t @ quote else t)"
  shows "type_hint n =
           wrap_func (fields_of n) (''Optional['' @ wrap_dict (fields_of n) (''List['' @ x @ '']'') @ '']'')
       \<and> (\<not> is_dict (fields_of n) \<and> \<not> is_func (fields_of n) \<longrightarrow>
             type_hint n = ''Optional[List['' @ x @ '']]'')
       \<and> (is_dict (fields_of n) \<and> \<not> is_func (fields_of n) \<longrightarrow>
             type_hint n = ''Optional[Dict[str, List['' @ x @ '']]]'')
       \<and> type_hint n \<noteq> ''List[Optional['' @ x @ '']]''"
proof -
  have x: "x \<noteq> []" using assms by (auto simp: quote_def)
  have i: "inner_type (fields_of n) (map type_hint (data_types n)) = x"
    using assms by (simp add: inner_type_named)
  have 1: "type_hint n =
           wrap_func (fields_of n) (''Optional['' @ wrap_dict (fields_of n) (''List['' @ x @ '']'') @ '']'')"
    unfolding type_hint_eq [of n]
    using assms(3,4) x by (simp add: type_hint_of_def i wrap_optional_def wrap_list_def)
  have 2: "\<not> is_dict (fields_of n) \<and> \<not> is_func (fields_of n) \<longrightarrow>
             type_hint n = ''Optional[List['' @ x @ '']]''"
    unfolding 1 by (simp add: wrap_func_def wrap_dict_def)
  have 3: "is_dict (fields_of n) \<and> \<not> is_func (fields_of n) \<longrightarrow>
             type_hint n = ''Optional[Dict[str, List['' @ x @ '']]]''"
    unfolding 1 by (simp add: wrap_func_def wrap_dict_def)
  have 4: "type_hint n \<noteq> ''List[Optional['' @ x @ '']]''"
    unfolding 1 by (cases "is_func (fields_of n)"; cases "kwargs (fields_of n)"; simp add: wrap_func_def)
  from 1 2 3 4 show ?thesis by blast
qed

theorem optional_wraps_list_witness:
  "type (fields_of node_optional_list_int) = Some ''int'' \<and> ''int'' \<noteq> []
   \<and> is_list (fields_of node_optional_list_int) \<and> is_optional (fields_of node_optional_list_int)
   \<and> type_hint node_optional_list_int = ''Optional[List[int]]''
   \<and> type_hint node_optional_list_int \<noteq> ''List[Optional[int]]''"
proof -
  have h1: "type (fields_of node_optional_list_int) = Some ''int''"
    and h3: "is_list (fields_of node_optional_list_int)"
    and h4: "is_optional (fields_of node_optional_list_int)"
    and h5: "''int'' = (if (reference (fields_of node_optional_list_int) \<noteq> None
                            \<or> ref (fields_of node_optional_list_int))
                          \<and> python_version (fields_of node_optional_list_int) = PY_36
                        then quote @ ''int'' @ quote else ''int'')"
    and f: "\<not> is_dict (fields_of node_optional_list_int) \<and> \<not> is_func (fields_of node_optional_list_int)"
    by (simp_all add: node_optional_list_int_def init_defs Let_def)
  have h2: "''int'' \<noteq> []" by simp
  note t = optional_wraps_list [OF h1 h2 h3 h4 h5]
  from t f have a: "type_hint node_optional_list_int = ''Optional[List['' @ ''int'' @ '']]''"
    by blast
  from t have b: "type_hint node_optional_list_int \<noteq> ''List[Optional['' @ ''int'' @ '']]''"
    by blast
  from h1 h2 h3 h4 a b show ?thesis by simp
qed

text \<open>
  C6. A node with no name (\<open>type\<close> is \<open>None\<close> or empty) and none of the three wrapper
  flags renders its children: two or more as \<open>Union[c1, ..., ck]\<close>, the children's type
  hints in their order joined by \<open>', '\<close>; one as that child's type hint; none as the
  empty string. That text is the whole type hint when \<open>is_func\<close> is unset, and the
  callee of the call when it is set.
\<close>

theorem nameless_node_renders_children:
  assumes "type (fields_of n) = None \<or> type (fields_of n) = Some []"
    and "\<not> is_list (fields_of n)" and "\<not> is_dict (fields_of n)" and "\<not> is_optional (fields_of n)"
  shows "(1 < length (data_types n) \<longrightarrow>
            type_hint n
              = wrap_func (fields_of n) (''Union['' @ join '', '' (map type_hint (data_types n)) @ '']''))
       \<and> (data_types n = [a, b, c] \<longrightarrow>
            type_hint n
              = wrap_func (fields_of n) (''Union['' @ type_hint a @ '', '' @ type_hint b @ '', ''
                                  @ type_hint c @ '']''))
       \<and> (data_types n = [d] \<longrightarrow> type_hint n = wrap_func (fields_of n) (type_hint d))
       \<and> (data_types n = [] \<longrightarrow> type_hint n = wrap_func (fields_of n) [])
       \<and> (\<not> is_func (fields_of n) \<longrightarrow>
            (1 < length (data_types n) \<longrightarrow>
               type_hint n = ''Union['' @ join '', '' (map type_hint (data_types n)) @ '']'')
          \<and> (data_types n = [d] \<longrightarrow> type_hint n = type_hint d)
          \<and> (data_types n = [] \<longrightarrow> type_hint n = []))"
proof -
  have h: "type_hint n = wrap_func (fields_of n) (union_type (map type_hint (data_types n)))"
    unfolding type_hint_eq [of n] using assms
    by (simp add: type_hint_of_def inner_type_nameless wrap_optional_def wrap_dict_def wrap_list_def)
  show ?thesis
    unfolding h by (auto simp: union_type_def wrap_func_plain)
qed

theorem nameless_node_renders_children_witness:
  "type (fields_of node_union3) = None
   \<and> \<not> is_list (fields_of node_union3) \<and> \<not> is_dict (fields_of node_union3)
   \<and> \<not> is_optional (fields_of node_union3) \<and> \<not> is_func (fields_of node_union3)
   \<and> data_types node_union3 = [node_int, node_pet_list, node_pet_py36]
   \<and> type_hint node_union3
       = ''Union['' @ type_hint node_int @ '', '' @ type_hint node_pet_list @ '', ''
           @ type_hint node_pet_py36 @ '']''
   \<and> type_hint node_union3 = ''Union[int, List[Pet], '' @ [CHR 0x27] @ ''Pet'' @ [CHR 0x27] @ '']''
   \<and> type_hint (DataType_init DataType_defaults [node_pet_list]) = type_hint node_pet_list
   \<and> type_hint (DataType_init DataType_defaults []) = []"
proof -
  have h1: "type (fields_of node_union3) = None \<or> type (fields_of node_union3) = Some []"
    and h1': "type (fields_of node_union3) = None"
    and h2: "\<not> is_list (fields_of node_union3)" and h3: "\<not> is_dict (fields_of node_union3)"
    and h4: "\<not> is_optional (fields_of node_union3)" and h5: "\<not> is_func (fields_of node_union3)"
    and h6: "data_types node_union3 = [node_int, node_pet_list, node_pet_py36]"
    by (simp_all add: node_union3_def DataType_init_fields DataType_init_children DataType_defaults_def)
  note t = nameless_node_renders_children [OF h1 h2 h3 h4, of node_int node_pet_list node_pet_py36]
  from t h5 h6 have a: "type_hint node_union3
       = ''Union['' @ type_hint node_int @ '', '' @ type_hint node_pet_list @ '', ''
           @ type_hint node_pet_py36 @ '']''"
    by (simp add: wrap_func_plain)
  have b: "type_hint node_union3
      = ''Union[int, List[Pet], '' @ [CHR 0x27] @ ''Pet'' @ [CHR 0x27] @ '']''"
    unfolding a
    by (simp add: node_int_def node_pet_list_def node_pet_py36_def pet_reference_def
        init_defs hint_defs Let_def)
  let ?one = "DataType_init DataType_defaults [node_pet_list]"
  have o: "type (fields_of ?one) = None \<or> type (fields_of ?one) = Some []"
    "\<not> is_list (fields_of ?one)" "\<not> is_dict (fields_of ?one)" "\<not> is_optional (fields_of ?one)"
    and o': "\<not> is_func (fields_of ?one)" "data_types ?one = [node_pet_list]"
    by (simp_all add: DataType_init_fields DataType_init_children DataType_defaults_def)
  from nameless_node_renders_children [OF o, of _ _ _ node_pet_list] o'
  have c: "type_hint ?one = type_hint node_pet_list"
    by blast
  let ?zero = "DataType_init DataType_defaults []"
  have z: "type (fields_of ?zero) = None \<or> type (fields_of ?zero) = Some []"
    "\<not> is_list (fields_of ?zero)" "\<not> is_dict (fields_of ?zero)" "\<not> is_optional (fields_of ?zero)"
    and z': "\<not> is_func (fields_of ?zero)" "data_types ?zero = []"
    by (simp_all add: DataType_init_fields DataType_init_children DataType_defaults_def)
  from nameless_node_renders_children [OF z] z'
  have e: "type_hint ?zero = []"
    by blast
  from h1' h2 h3 h4 h5 h6 a b c e show ?thesis by blast
qed

text \<open>
  C7. A node with \<open>is_func\<close> set renders a call: the callee is the type hint of the same
  node with \<open>is_func\<close> unset, and between the parentheses stand the items of \<open>kwargs\<close>
  in insertion order, each as \<open>key=value\<close>, joined by \<open>', '\<close>. With \<open>kwargs\<close> absent or
  empty the parentheses are empty, not left out. With the name \<open>Field\<close> and the one
  argument \<open>default\<close> the text is \<open>Field(default=1)\<close>; with no argument, \<open>Field()\<close>.
\<close>

theorem func_renders_call:
  assumes "is_func (fields_of n)"
  shows "type_hint n =
           type_hint (DataType ((fields_of n)\<lparr>is_func := False\<rparr>) (data_types n)) @ ''(''
             @ join '', '' (map (\<lambda>(k, v). k @ ''='' @ py_format v)
                 (case kwargs (fields_of n) of None \<Rightarrow> [] | Some items \<Rightarrow> items))
             @ '')''
       \<and> (kwargs (fields_of n) = None \<or> kwargs (fields_of n) = Some [] \<longrightarrow>
            type_hint n
              = type_hint (DataType ((fields_of n)\<lparr>is_func := False\<rparr>) (data_types n)) @ ''()'')"
proof -
  let ?self = "fields_of n"
  let ?x = "wrap_optional ?self (wrap_dict ?self (wrap_list ?self
              (inner_type ?self (map type_hint (data_types n)))))"
  have a: "type_hint_of (?self\<lparr>is_func := False\<rparr>) ts
        = wrap_optional ?self (wrap_dict ?self (wrap_list ?self (inner_type ?self ts)))" for ts
    by (cases "type ?self")
       (simp_all add: type_hint_of_def wrap_func_def wrap_optional_def wrap_dict_def wrap_list_def
          inner_type_def)
  have l: "type_hint n = wrap_func ?self ?x"
    unfolding type_hint_eq [of n] by (simp add: type_hint_of_def)
  have r: "type_hint (DataType (?self\<lparr>is_func := False\<rparr>) (data_types n)) = ?x"
    by (simp add: a)
  have b: "type_hint n =
           type_hint (DataType (?self\<lparr>is_func := False\<rparr>) (data_types n)) @ ''(''
             @ join '', '' (map (\<lambda>(k, v). k @ ''='' @ py_format v)
                 (case kwargs ?self of None \<Rightarrow> [] | Some items \<Rightarrow> items))
             @ '')''"
    unfolding l r using assms by (simp add: wrap_func_call kwargs_text_def)
  show ?thesis
    unfolding b by auto
qed

theorem func_renders_call_witness:
  "is_func (fields_of node_field) \<and> type_hint node_field = ''Field(default=1)''
   \<and> is_func (fields_of node_field_empty) \<and> type_hint node_field_empty = ''Field()''"
proof -
  have h: "is_func (fields_of node_field)" and h': "is_func (fields_of node_field_empty)"
    by (simp_all add: node_field_def node_field_empty_def init_defs Let_def)
  have a: "type_hint node_field = ''Field(default=1)''"
    using func_renders_call [OF h] by (simp add: node_field_def init_defs hint_defs Let_def)
  have b: "type_hint node_field_empty = ''Field()''"
    using func_renders_call [OF h'] by (simp add: node_field_empty_def init_defs hint_defs Let_def)
  from h h' a b show ?thesis by blast
qed

subsection \<open>Aggregation over the children\<close>

text \<open>
  C8. For a node built with children \<open>ds\<close>, every child's \<open>unresolved_types\<close> is a
  subset of the node's, and every helper in a child's \<open>imports_\<close> is in the node's
  \<open>imports_\<close>.
\<close>

theorem DataType_init_monotone:
  assumes "d \<in> set ds"
  shows "unresolved_types (fields_of d) \<subseteq> unresolved_types (fields_of (DataType_init v ds))
       \<and> set (imports' (fields_of d)) \<subseteq> set (imports' (fields_of (DataType_init v ds)))"
  using assms by (auto simp: DataType_init_fields)

theorem DataType_init_monotone_witness:
  "node_pet_list \<in> set [node_int, node_pet_list]
   \<and> (unresolved_types (fields_of node_pet_list)
        \<subseteq> unresolved_types (fields_of (DataType_init DataType_defaults [node_int, node_pet_list]))
      \<and> set (imports' (fields_of node_pet_list))
        \<subseteq> set (imports' (fields_of (DataType_init DataType_defaults [node_int, node_pet_list]))))"
proof -
  have h: "node_pet_list \<in> set [node_int, node_pet_list]"
    by simp
  show ?thesis
    by (rule conjI [OF h DataType_init_monotone [OF h]])
qed

text \<open>
  C9. Constructing a node over existing nodes leaves them as they were. In a well-formed
  store, \<open>DataType_init_h\<close> with children \<open>ds\<close> that are objects of the store returns a new
  address, and every object \<open>c\<close> that was there, each child among them, is the same
  after the call: the node object itself (its name, its reference, its flags, the
  addresses it holds), the contents of its \<open>imports_\<close> list and of its \<open>unresolved_types\<close>
  set, the node read as a value, and its type hint, which with fuel above the address is
  a text on both sides. All the objects of the store are a prefix of the new store.
\<close>

theorem DataType_init_h_frame:
  assumes "wf_store s" and "\<forall>d \<in> set ds. d < length (nodes s)"
    and "DataType_init_h values ds s = (s', self)"
    and "c < length (nodes s)"
  shows "self \<noteq> c
       \<and> nodes s' ! c = nodes s ! c
       \<and> import_lists s' ! imports' (obj_fields (nodes s' ! c))
           = import_lists s ! imports' (obj_fields (nodes s ! c))
       \<and> name_sets s' ! unresolved_types (obj_fields (nodes s' ! c))
           = name_sets s ! unresolved_types (obj_fields (nodes s ! c))
       \<and> node_of k s' c = node_of k s c
       \<and> type_hint_h k s' c = type_hint_h k s c
       \<and> (c < k \<longrightarrow> (\<exists>h. type_hint_h k s c = Some h \<and> type_hint_h k s' c = Some h))
       \<and> take (length (nodes s)) (nodes s') = nodes s
       \<and> take (length (import_lists s)) (import_lists s') = import_lists s
       \<and> take (length (name_sets s)) (name_sets s') = name_sets s"
proof -
  from DataType_init_h_extends [OF assms(1-3)]
  obtain obj il us where self: "self = length (nodes s)"
    and n: "nodes s' = nodes s @ [obj]"
    and l: "import_lists s' = import_lists s @ [il]"
    and u: "name_sets s' = name_sets s @ [us]"
    by blast
  have ptr: "imports' (obj_fields (nodes s ! c)) < length (import_lists s)"
    "unresolved_types (obj_fields (nodes s ! c)) < length (name_sets s)"
    using assms(1,4) by (simp_all add: wf_store_def)
  have 1: "self \<noteq> c" using self assms(4) by simp
  have 2: "nodes s' ! c = nodes s ! c"
    using n assms(4) by (simp add: nth_append)
  have 3: "import_lists s' ! imports' (obj_fields (nodes s' ! c))
           = import_lists s ! imports' (obj_fields (nodes s ! c))"
    using ptr unfolding 2 l by (simp add: nth_append)
  have 4: "name_sets s' ! unresolved_types (obj_fields (nodes s' ! c))
           = name_sets s ! unresolved_types (obj_fields (nodes s ! c))"
    using ptr unfolding 2 u by (simp add: nth_append)
  have 5: "node_of k s' c = node_of k s c"
    by (rule node_of_frame [OF assms(1) n l u assms(4)])
  have 6: "type_hint_h k s' c = type_hint_h k s c"
    by (simp add: type_hint_h_def 5)
  have 7: "c < k \<longrightarrow> (\<exists>h. type_hint_h k s c = Some h \<and> type_hint_h k s' c = Some h)"
    using node_of_total [OF assms(1,4), of k] by (auto simp: type_hint_h_def 5)
  have 8: "take (length (nodes s)) (nodes s') = nodes s"
    "take (length (import_lists s)) (import_lists s') = import_lists s"
    "take (length (name_sets s)) (name_sets s') = name_sets s"
    by (simp_all add: n l u)
  from 1 2 3 4 5 6 7 8 show ?thesis by blast
qed

theorem DataType_init_h_frame_witness:
  "wf_store store_children
   \<and> 0 < length (nodes store_children) \<and> 1 < length (nodes store_children)
   \<and> DataType_init_h parent_values [0, 1] store_children = (store_parent, 2)
   \<and> nodes store_parent ! 1 = nodes store_children ! 1
   \<and> import_lists store_parent ! imports' (obj_fields (nodes store_parent ! 1)) = [IMPORT_LIST]
   \<and> import_lists store_parent ! imports' (obj_fields (nodes store_parent ! 2))
       = [IMPORT_LIST, IMPORT_UNION, IMPORT_LIST]
   \<and> name_sets store_parent ! unresolved_types (obj_fields (nodes store_parent ! 1)) = {''Pet''}
   \<and> node_of (Suc 0) store_parent 1 = Some node_pet_list
   \<and> type_hint_h (Suc 0) store_parent 1 = Some ''List[Pet]''"
proof -
  have w: "wf_store store_children"
    by (rule wf_store_children)
  have k: "\<forall>d \<in> set [0, 1]. d < length (nodes store_children)"
    and k0: "0 < length (nodes store_children)" and c: "1 < length (nodes store_children)"
    by (simp_all add: store_children_eq)
  have i: "DataType_init_h parent_values [0, 1] store_children = (store_parent, 2)"
    by (simp add: store_parent_def parent_values_def store_children_eq store_defs Let_def)
  note t = DataType_init_h_frame [OF w k i c, of "Suc 0"]
  have old: "import_lists store_children ! imports' (obj_fields (nodes store_children ! 1))
        = [IMPORT_LIST]"
    "name_sets store_children ! unresolved_types (obj_fields (nodes store_children ! 1)) = {''Pet''}"
    "node_of (Suc 0) store_children 1 = Some node_pet_list"
    "type_hint_h (Suc 0) store_children 1 = Some ''List[Pet]''"
    by (simp_all add: store_children_eq type_hint_h_def read_fields_def node_pet_list_def
        init_defs hint_defs Let_def)
  have new: "import_lists store_parent ! imports' (obj_fields (nodes store_parent ! 2))
       = [IMPORT_LIST, IMPORT_UNION, IMPORT_LIST]"
    by (simp add: store_parent_def parent_values_def store_children_eq store_defs Let_def)
  from t have a: "nodes store_parent ! 1 = nodes store_children ! 1"
    by blast
  from t have "import_lists store_parent ! imports' (obj_fields (nodes store_parent ! 1))
           = import_lists store_children ! imports' (obj_fields (nodes store_children ! 1))"
    by blast
  then have b: "import_lists store_parent ! imports' (obj_fields (nodes store_parent ! 1))
           = [IMPORT_LIST]"
    using old(1) by (rule trans)
  from t have "name_sets store_parent ! unresolved_types (obj_fields (nodes store_parent ! 1))
           = name_sets store_children ! unresolved_types (obj_fields (nodes store_children ! 1))"
    by blast
  then have d: "name_sets store_parent ! unresolved_types (obj_fields (nodes store_parent ! 1))
           = {''Pet''}"
    using old(2) by (rule trans)
  from t have "node_of (Suc 0) store_parent 1 = node_of (Suc 0) store_children 1"
    by blast
  then have e: "node_of (Suc 0) store_parent 1 = Some node_pet_list"
    using old(3) by (rule trans)
  from t have "type_hint_h (Suc 0) store_parent 1 = type_hint_h (Suc 0) store_children 1"
    by blast
  then have f: "type_hint_h (Suc 0) store_parent 1 = Some ''List[Pet]''"
    using old(4) by (rule trans)
  from w k0 c i new a b d e f show ?thesis by blast
qed

text \<open>
  C10. A node with a (non-empty) name renders from the name alone: its type hint is
  that of the same node built without children, the wrappers around the name (quoted
  for a referenced name under \<open>PY_36\<close>). Its two containers still hold what the children
  carry, and the union helper when there are two children or more.
\<close>

theorem named_node_ignores_children:
  assumes "type v = Some t" and "t \<noteq> []"
  shows "type_hint (DataType_init v ds) = type_hint (DataType_init v [])
       \<and> type_hint (DataType_init v ds) =
           wrap_func v (wrap_optional v (wrap_dict v (wrap_list v
             (if (reference v \<noteq> None \<or> ref v) \<and> python_version v = PY_36
              then quote @ t @ quote else t))))
       \<and> (\<forall>d \<in> set ds.
             unresolved_types (fields_of d) \<subseteq> unresolved_types (fields_of (DataType_init v ds))
           \<and> set (imports' (fields_of d)) \<subseteq> set (imports' (fields_of (DataType_init v ds))))
       \<and> (1 < length ds \<longrightarrow> IMPORT_UNION \<in> set (imports' (fields_of (DataType_init v ds))))"
proof -
  have inner: "inner_type v ts =
      (if (reference v \<noteq> None \<or> ref v) \<and> python_version v = PY_36 then quote @ t @ quote else t)"
    for ts
    using assms by (simp add: inner_type_def)
  have 1: "type_hint (DataType_init v ds) = type_hint (DataType_init v [])"
    by (simp add: type_hint_DataType_init type_hint_of_def inner)
  have 2: "type_hint (DataType_init v ds) =
           wrap_func v (wrap_optional v (wrap_dict v (wrap_list v
             (if (reference v \<noteq> None \<or> ref v) \<and> python_version v = PY_36
              then quote @ t @ quote else t))))"
    by (simp only: type_hint_DataType_init type_hint_of_def inner)
  have 3: "\<forall>d \<in> set ds.
             unresolved_types (fields_of d) \<subseteq> unresolved_types (fields_of (DataType_init v ds))
           \<and> set (imports' (fields_of d)) \<subseteq> set (imports' (fields_of (DataType_init v ds)))"
    by (auto simp: DataType_init_fields)
  have 4: "1 < length ds \<longrightarrow> IMPORT_UNION \<in> set (imports' (fields_of (DataType_init v ds)))"
    by (simp add: DataType_init_fields set_flag_imports)
  from 1 2 3 4 show ?thesis by blast
qed

theorem named_node_ignores_children_witness:
  "type (DataType_defaults\<lparr>type := Some ''Pet'', ref := True, is_list := True\<rparr>) = Some ''Pet''
   \<and> ''Pet'' \<noteq> []
   \<and> type_hint (DataType_init (DataType_defaults\<lparr>type := Some ''Pet'', ref := True, is_list := True\<rparr>)
        [node_int, node_pet_list]) = ''List[Pet]''
   \<and> unresolved_types (fields_of node_pet_list)
       \<subseteq> unresolved_types (fields_of (DataType_init
            (DataType_defaults\<lparr>type := Some ''Pet'', ref := True, is_list := True\<rparr>)
            [node_int, node_pet_list]))
   \<and> IMPORT_UNION \<in> set (imports' (fields_of (DataType_init
            (DataType_defaults\<lparr>type := Some ''Pet'', ref := True, is_list := True\<rparr>)
            [node_int, node_pet_list])))"
proof -
  let ?v = "DataType_defaults\<lparr>type := Some ''Pet'', ref := True, is_list := True\<rparr>"
  have h1: "type ?v = Some ''Pet''" by simp
  have h2: "''Pet'' \<noteq> []" by simp
  note t = named_node_ignores_children [OF h1 h2, of "[node_int, node_pet_list]"]
  have w: "wrap_func ?v (wrap_optional ?v (wrap_dict ?v (wrap_list ?v
             (if (reference ?v \<noteq> None \<or> ref ?v) \<and> python_version ?v = PY_36
              then quote @ ''Pet'' @ quote else ''Pet'')))) = ''List[Pet]''"
    by (simp add: hint_defs DataType_defaults_def)
  have a: "type_hint (DataType_init ?v [node_int, node_pet_list]) = ''List[Pet]''"
    using conjunct1 [OF conjunct2 [OF t]] w by (rule trans)
  from conjunct1 [OF conjunct2 [OF conjunct2 [OF t]]]
  have b: "unresolved_types (fields_of node_pet_list)
       \<subseteq> unresolved_types (fields_of (DataType_init ?v [node_int, node_pet_list]))"
    by simp
  from conjunct2 [OF conjunct2 [OF conjunct2 [OF t]]]
  have c: "IMPORT_UNION \<in> set (imports' (fields_of (DataType_init ?v [node_int, node_pet_list])))"
    by simp
  from h1 h2 a b c show ?thesis by blast
qed

end
